theory Spec2Isabelle
  imports Main
begin

section \<open>Bidding rules (utils/auctionRules)\<close>

text \<open>
  Amounts are JavaScript numbers that hold whole rupees; they are modelled as \<open>int\<close>.
  A value that arrives in a request body may fail to be a finite number, so the submitted
  amount is a \<open>jsvalue\<close>: a finite number, one of the three non-finite numbers, the falsy
  \<open>undefined\<close>, or some other (truthy) value that is not of type number.
\<close>

datatype jsvalue = JNumber int | JInfinity | JNegInfinity | JNaN | JUndefined | JOther

record increment_rule =
  rule_min :: int
  rule_max :: "int option"  \<comment> \<open>\<open>None\<close> is \<open>Infinity\<close>\<close>
  increment :: int

definition BASE_PRICE :: int where
  "BASE_PRICE = 20"

definition MAX_BID_PER_PLAYER :: int where
  "MAX_BID_PER_PLAYER = 2000"

definition MAX_PLAYERS_PER_TEAM :: int where
  "MAX_PLAYERS_PER_TEAM = 10"

definition INCREMENT_RULES :: "increment_rule list" where
  "INCREMENT_RULES =
     [\<lparr>rule_min = 20, rule_max = Some 50, increment = 5\<rparr>,
      \<lparr>rule_min = 50, rule_max = Some 100, increment = 10\<rparr>,
      \<lparr>rule_min = 100, rule_max = None, increment = 15\<rparr>]"

definition rule_applies :: "int \<Rightarrow> increment_rule \<Rightarrow> bool" where
  "rule_applies basePrice r =
     (basePrice \<ge> rule_min r \<and> (case rule_max r of None \<Rightarrow> True | Some m \<Rightarrow> basePrice < m))"

text \<open>
  \<open>getNextBidAmount(currentBid = null)\<close>: the argument is \<open>None\<close> for \<open>null\<close> or
  \<open>undefined\<close>; \<open>currentBid || BASE_PRICE\<close> also replaces the falsy number \<open>0\<close>.
  The result \<open>None\<close> is JavaScript's \<open>null\<close>.
\<close>

definition getNextBidAmount :: "int option \<Rightarrow> int option" where
  "getNextBidAmount currentBid =
     (let basePrice = (case currentBid of None \<Rightarrow> BASE_PRICE
                       | Some c \<Rightarrow> if c = 0 then BASE_PRICE else c)
      in if basePrice \<ge> MAX_BID_PER_PLAYER then None
         else (case find (rule_applies basePrice) INCREMENT_RULES of
                 None \<Rightarrow>
                   Some (min (basePrice + increment (last INCREMENT_RULES)) MAX_BID_PER_PLAYER)
               | Some rule \<Rightarrow>
                   Some (min (basePrice + increment rule) MAX_BID_PER_PLAYER)))"

datatype bid_reason =
    NotPositiveNumber            \<comment> \<open>Bid amount must be a positive number\<close>
  | MaxBidPerPlayer int          \<comment> \<open>Maximum bid per player is ...\<close>
  | MaxBidAlreadyReached         \<comment> \<open>Maximum bid for this player has already been reached\<close>
  | BidMustBeAtLeast int int int \<comment> \<open>Bid must be at least m (current: c, increment: m - c)\<close>
  | MustFollowIncrement int      \<comment> \<open>Bid must follow increment rules. Next valid bid is ...\<close>
  | InsufficientBalance int int  \<comment> \<open>Insufficient balance. Required: ..., Available: ...\<close>
  | TeamPlayerLimit int          \<comment> \<open>Team has reached maximum player limit of ...\<close>
  | InsufficientToPlace          \<comment> \<open>Insufficient balance to place this bid\<close>
  | BidIsValid                   \<comment> \<open>Bid is valid\<close>

record validation =
  valid :: bool
  reason :: bid_reason

record bid_options =
  opt_currentBidAmount :: "int option"
  opt_isOwnerBidding :: "bool option"

definition balanceAndTeamChecks :: "int \<Rightarrow> int \<Rightarrow> int \<Rightarrow> bool \<Rightarrow> validation" where
  \<comment> \<open>validations 5, 6 and 7 of \<open>canPlaceBid\<close>\<close>
  "balanceAndTeamChecks amount ownerBalance teamPlayerCount isOwnerBidding =
     (if amount > ownerBalance
        then \<lparr>valid = False, reason = InsufficientBalance amount ownerBalance\<rparr>
      else if teamPlayerCount \<ge> MAX_PLAYERS_PER_TEAM
        then \<lparr>valid = False, reason = TeamPlayerLimit MAX_PLAYERS_PER_TEAM\<rparr>
      else if isOwnerBidding \<and> amount > ownerBalance
        then \<lparr>valid = False, reason = InsufficientToPlace\<rparr>
      else \<lparr>valid = True, reason = BidIsValid\<rparr>)"

definition canPlaceBid ::
  "jsvalue \<Rightarrow> int \<Rightarrow> int \<Rightarrow> int \<Rightarrow> bid_options \<Rightarrow> validation" where
  "canPlaceBid bidAmount currentBid ownerBalance teamPlayerCount options =
     (let currentBidAmount = (case opt_currentBidAmount options of None \<Rightarrow> currentBid
                              | Some c \<Rightarrow> c);
          isOwnerBidding = (case opt_isOwnerBidding options of None \<Rightarrow> False | Some b \<Rightarrow> b)
      in case bidAmount of
           JNumber amount \<Rightarrow>
             if amount \<le> 0 then \<lparr>valid = False, reason = NotPositiveNumber\<rparr>
             else if amount > MAX_BID_PER_PLAYER
               then \<lparr>valid = False, reason = MaxBidPerPlayer MAX_BID_PER_PLAYER\<rparr>
             else (case getNextBidAmount (Some currentBidAmount) of
                 None \<Rightarrow> \<lparr>valid = False, reason = MaxBidAlreadyReached\<rparr>
               | Some minimumRequiredBid \<Rightarrow>
                   if amount < minimumRequiredBid
                     then \<lparr>valid = False,
                           reason = BidMustBeAtLeast minimumRequiredBid currentBidAmount
                                      (minimumRequiredBid - currentBidAmount)\<rparr>
                   else (case getNextBidAmount (Some currentBidAmount) of
                       None \<Rightarrow>
                         \<comment> \<open>a \<open>null\<close> \<open>expectedNextBid\<close> compares as \<open>0\<close>\<close>
                         if amount < 0 then \<lparr>valid = False, reason = MustFollowIncrement 0\<rparr>
                         else balanceAndTeamChecks amount ownerBalance teamPlayerCount
                                isOwnerBidding
                     | Some expectedNextBid \<Rightarrow>
                         if amount \<noteq> expectedNextBid \<and> amount < expectedNextBid
                           then \<lparr>valid = False,
                                 reason = MustFollowIncrement expectedNextBid\<rparr>
                         else balanceAndTeamChecks amount ownerBalance teamPlayerCount
                                isOwnerBidding))
         | _ \<Rightarrow> \<lparr>valid = False, reason = NotPositiveNumber\<rparr>)"


section \<open>Errors and the global error handler (middleware/error.middleware)\<close>

text \<open>
  Every \<open>throw\<close> of the source is a value of \<open>api_error\<close>: an \<open>Error\<close> that was given a
  \<open>statusCode\<close>, a plain \<open>Error\<close> thrown by a model method, a Mongoose validation error with
  the failing paths, and the driver's duplicate-key error (code 11000) with the keys of the
  violated index (\<open>err.keyPattern\<close>) in order.
\<close>

datatype message = Msg string | BidReason bid_reason

datatype api_error =
    HttpError nat message
  | PlainError string
  | ValidationError "string list"
  | DuplicateKeyError "string list"




section \<open>Documents\<close>

text \<open>
  An \<open>ObjectId\<close> is a number. A collection whose documents are only ever found by a unique key
  is a map from that key; the \<open>_id\<close> of such a document is its key in the map. Bids are queried
  by their fields, so they form a list in insertion order and carry their \<open>_id\<close>. Dates are
  natural numbers. The \<open>createdAt\<close>/\<open>updatedAt\<close> stamps that Mongoose maintains by itself are
  not part of the records.
\<close>

type_synonym objectId = nat
type_synonym date = nat

datatype role = Batsman | Bowler | AllRounder | WicketKeeper | WicketKeeperBatsman

datatype player_status = Available | Sold | Unsold | Retired

record player =
  p_name :: string
  p_age :: int
  p_role :: role
  basePrice :: int
  currentPrice :: "int option"
  p_photo :: "string option"
  stat_matches :: int
  stat_runs :: int
  stat_wickets :: int
  stat_average :: int
  p_status :: player_status
  p_teamId :: "objectId option"
  soldPrice :: "int option"
  p_auctionEventId :: "objectId option"

record teamEventBudget =
  teb_teamId :: objectId
  teb_auctionEventId :: objectId
  budget :: int
  spent :: int
  remainingBudget :: int

datatype team_status = Active | Inactive | Suspended

record team =
  t_ownerId :: "objectId option"
  t_budget :: int
  t_spent :: int
  t_remainingBudget :: int
  t_players :: "objectId list"
  t_status :: team_status

datatype event_status = Draft | Scheduled | Live | Paused | Completed | Cancelled

record auctionEvent =
  startDate :: date
  endDate :: "date option"
  ev_status :: event_status
  ev_players :: "objectId list"
  participatingTeams :: "objectId list"
  currentPlayerId :: "objectId option"
  currentPlayerStartTime :: "date option"
  currentCategory :: "role option"
  set_bidIncrement :: "int option"
  set_bidTimer :: "int option"
  set_startingBudget :: "int option"
  set_autoMode :: "bool option"
  stats_totalPlayers :: int
  stats_playersSold :: int
  stats_playersUnsold :: int
  stats_totalAmountSpent :: int
  startedAt :: "date option"
  completedAt :: "date option"

datatype bid_status = Pending | Accepted | Outbid | Winning | Rejected

record bid =
  bid_id :: objectId
  b_auctionEventId :: objectId
  b_playerId :: objectId
  b_teamId :: objectId
  b_bidderId :: objectId
  amount :: int
  b_status :: bid_status
  isWinningBid :: bool
  rejectionReason :: "string option"
  bidTime :: date
  outbidAt :: "date option"

datatype user_role = Admin | TeamOwner

record user =
  u_role :: user_role
  u_teamId :: "objectId option"

record db =
  events :: "objectId \<rightharpoonup> auctionEvent"
  players :: "objectId \<rightharpoonup> player"
  teams :: "objectId \<rightharpoonup> team"
  users :: "objectId \<rightharpoonup> user"
  budgets :: "objectId \<times> objectId \<rightharpoonup> teamEventBudget"
  bids :: "bid list"

section \<open>Saving documents\<close>

text \<open>
  \<open>save()\<close> validates the document as it stands in memory, every path of it, then runs the
  \<open>pre('save')\<close> hook, then writes. A validator with \<open>min\<close>, \<open>max\<close> or \<open>maxlength\<close>
  accepts an empty value; a custom validator is asked also then. The validators of the paths
  the records leave out (names of teams and events, the creator of an event) are taken to
  pass. For a document that was loaded, the write sends only the paths whose assigned value
  differs from the loaded one.
\<close>

section \<open>Player (models/Player)\<close>

definition playerFailing :: "player \<Rightarrow> string list" where
  "playerFailing p =
     (if p_name p = [] \<or> length (p_name p) > 100 then [''name''] else []) @
     (if p_age p < 16 \<or> p_age p > 50 then [''age''] else []) @
     (if basePrice p < 0 then [''basePrice''] else []) @
     (case currentPrice p of None \<Rightarrow> [] | Some v \<Rightarrow> if v < 0 then [''currentPrice''] else []) @
     (if stat_matches p < 0 then [''statistics.matches''] else []) @
     (if stat_runs p < 0 then [''statistics.runs''] else []) @
     (if stat_wickets p < 0 then [''statistics.wickets''] else []) @
     (if stat_average p < 0 then [''statistics.average''] else []) @
     (if p_status p = Sold \<and> p_teamId p = None then [''teamId''] else []) @
     (case soldPrice p of
        None \<Rightarrow> if p_status p = Sold then [''soldPrice''] else []
      | Some v \<Rightarrow> if v < 0 \<or> (p_status p = Sold \<and> \<not> v \<ge> basePrice p)
                  then [''soldPrice''] else [])"

definition playerPreSave :: "player \<Rightarrow> player" where
  "playerPreSave p =
     (if p_status p = Sold \<and> soldPrice p \<noteq> None then p\<lparr>currentPrice := soldPrice p\<rparr>
      else if p_status p = Available then p\<lparr>currentPrice := Some (basePrice p)\<rparr>
      else p)"

definition playerSave :: "player \<Rightarrow> api_error + player" where
  "playerSave this =
     (if playerFailing this \<noteq> [] then Inl (ValidationError (playerFailing this))
      else Inr (playerPreSave this))"

definition markAsSold :: "player \<Rightarrow> objectId \<Rightarrow> int \<Rightarrow> api_error + player" where
  "markAsSold this teamId price =
     (if price < basePrice this
        then Inl (PlainError ''Sold price cannot be less than base price'')
      else playerSave (this\<lparr>soldPrice := Some price, currentPrice := Some price\<rparr>))"

definition markAsUnsold :: "player \<Rightarrow> api_error + player" where
  "markAsUnsold this =
     playerSave (this\<lparr>p_status := Unsold, p_teamId := None, soldPrice := None,
                     currentPrice := Some (basePrice this)\<rparr>)"

text \<open>
  The query of \<open>emitAuctionEnded\<close> for the players it reports as sold:
  \<open>Player.find({ _id: { $in: event.players }, status: 'sold' })\<close>, as the ids it selects.
\<close>

definition soldPlayers :: "auctionEvent \<Rightarrow> db \<Rightarrow> objectId list" where
  "soldPlayers event s =
     filter (\<lambda>pid. case players s pid of None \<Rightarrow> False | Some p \<Rightarrow> p_status p = Sold)
       (remdups (ev_players event))"

section \<open>Per-event budget (models/TeamEventBudget)\<close>

text \<open>
  \<open>budget\<close> has \<open>min: 0\<close>; \<open>spent\<close> has \<open>min: 0\<close> and the validator
  \<open>value <= this.budget\<close>. The hook recomputes \<open>remainingBudget\<close>.
\<close>

definition budgetFailing :: "teamEventBudget \<Rightarrow> string list" where
  "budgetFailing b =
     (if budget b < 0 then [''budget''] else []) @
     (if spent b < 0 \<or> \<not> spent b \<le> budget b then [''spent''] else [])"

definition budgetSave :: "teamEventBudget \<Rightarrow> api_error + teamEventBudget" where
  "budgetSave this =
     (if budgetFailing this \<noteq> [] then Inl (ValidationError (budgetFailing this))
      else Inr (this\<lparr>remainingBudget := budget this - spent this\<rparr>))"

definition canAfford :: "teamEventBudget \<Rightarrow> int \<Rightarrow> bool" where
  "canAfford this bidAmount = (remainingBudget this \<ge> bidAmount)"

definition addPurchase :: "teamEventBudget \<Rightarrow> int \<Rightarrow> api_error + teamEventBudget" where
  "addPurchase this playerPrice =
     (if \<not> canAfford this playerPrice
        then Inl (PlainError ''Insufficient budget to purchase player in this event'')
      else budgetSave
             (this\<lparr>spent := spent this + playerPrice,
                   remainingBudget := budget this - (spent this + playerPrice)\<rparr>))"

text \<open>
  \<open>getOrCreate(teamId, eventId, defaultBudget)\<close>; \<open>defaultBudget || 10000\<close> replaces a missing
  argument and the falsy \<open>0\<close>. The result is the document with the collection after the call.
\<close>

definition getOrCreate ::
  "objectId \<Rightarrow> objectId \<Rightarrow> int option \<Rightarrow> (objectId \<times> objectId \<rightharpoonup> teamEventBudget)
     \<Rightarrow> api_error + (teamEventBudget \<times> (objectId \<times> objectId \<rightharpoonup> teamEventBudget))" where
  "getOrCreate teamId eventId defaultBudget coll =
     (case coll (teamId, eventId) of
        Some found \<Rightarrow> Inr (found, coll)
      | None \<Rightarrow>
          (let d = (case defaultBudget of None \<Rightarrow> 10000 | Some v \<Rightarrow> if v = 0 then 10000 else v)
           in case budgetSave
                     \<lparr>teb_teamId = teamId, teb_auctionEventId = eventId, budget = d, spent = 0,
                      remainingBudget = d\<rparr> of
                Inl e \<Rightarrow> Inl e
              | Inr created \<Rightarrow> Inr (created, coll((teamId, eventId) \<mapsto> created))))"

section \<open>Bids (models/Bid)\<close>

definition winningFor :: "objectId \<Rightarrow> objectId \<Rightarrow> bid \<Rightarrow> bool" where
  "winningFor eventId playerId b =
     (b_auctionEventId b = eventId \<and> b_playerId b = playerId \<and> isWinningBid b)"











text \<open>
  \<open>getWinningBid\<close>: \<open>findOne\<close> over the winning bids of the pair, latest \<open>bidTime\<close> first
  (among equal times, the one stored first).
\<close>

definition getWinningBid :: "objectId \<Rightarrow> objectId \<Rightarrow> bid list \<Rightarrow> bid option" where
  "getWinningBid eventId playerId coll =
     fold (\<lambda>b acc. case acc of None \<Rightarrow> Some b
                    | Some a \<Rightarrow> if bidTime b > bidTime a then Some b else Some a)
       (filter (winningFor eventId playerId) coll) None"


section \<open>Auction event (models/AuctionEvent) and team (models/Team)\<close>

text \<open>
  The validator of \<open>startDate\<close> passes for a live, paused or completed event and otherwise
  asks a date after the present; the one of \<open>endDate\<close> asks a date after \<open>startDate\<close>.
  Settings and statistics have their bounds. The \<open>pre('save')\<close> hook of the event acts only
  when \<open>players\<close> was modified, which nothing below does.
\<close>

definition eventFailing :: "auctionEvent \<Rightarrow> date \<Rightarrow> string list" where
  "eventFailing ev now =
     (if ev_status ev = Live \<or> ev_status ev = Completed \<or> ev_status ev = Paused \<or>
         startDate ev > now then [] else [''startDate'']) @
     (case endDate ev of None \<Rightarrow> []
      | Some v \<Rightarrow> if v > startDate ev then [] else [''endDate'']) @
     (case set_bidIncrement ev of None \<Rightarrow> []
      | Some v \<Rightarrow> if v < 50 then [''settings.bidIncrement''] else []) @
     (case set_bidTimer ev of None \<Rightarrow> []
      | Some v \<Rightarrow> if v < 10 \<or> v > 300 then [''settings.bidTimer''] else []) @
     (case set_startingBudget ev of None \<Rightarrow> []
      | Some v \<Rightarrow> if v < 0 then [''settings.startingBudget''] else []) @
     (if stats_totalPlayers ev < 0 then [''stats.totalPlayers''] else []) @
     (if stats_playersSold ev < 0 then [''stats.playersSold''] else []) @
     (if stats_playersUnsold ev < 0 then [''stats.playersUnsold''] else []) @
     (if stats_totalAmountSpent ev < 0 then [''stats.totalAmountSpent''] else [])"

definition eventSave :: "auctionEvent \<Rightarrow> date \<Rightarrow> api_error + auctionEvent" where
  "eventSave this now =
     (if eventFailing this now \<noteq> [] then Inl (ValidationError (eventFailing this now))
      else Inr this)"

definition updatePlayerSold :: "auctionEvent \<Rightarrow> int \<Rightarrow> date \<Rightarrow> api_error + auctionEvent" where
  "updatePlayerSold this playerPrice now =
     eventSave (this\<lparr>stats_playersSold := stats_playersSold this + 1,
                     stats_totalAmountSpent := stats_totalAmountSpent this + playerPrice\<rparr>) now"

definition completeAuction :: "auctionEvent \<Rightarrow> date \<Rightarrow> api_error + auctionEvent" where
  "completeAuction this now =
     (if ev_status this \<noteq> Live \<and> ev_status this \<noteq> Paused
        then Inl (PlainError ''Only live or paused auctions can be completed'')
      else eventSave (this\<lparr>ev_status := Completed, completedAt := Some now,
                           endDate := (if endDate this = None then Some now else endDate this)\<rparr>)
             now)"

definition teamFailing :: "team \<Rightarrow> string list" where
  "teamFailing t =
     (if t_budget t < 0 then [''budget''] else []) @
     (if t_spent t < 0 \<or> \<not> t_spent t \<le> t_budget t then [''spent''] else [])"

definition teamSave :: "team \<Rightarrow> api_error + team" where
  "teamSave this =
     (if teamFailing this \<noteq> [] then Inl (ValidationError (teamFailing this))
      else Inr (this\<lparr>t_remainingBudget := t_budget this - t_spent this\<rparr>))"

section \<open>Placing a bid (controllers/bid.controller)\<close>

record bid_request =
  req_userId :: objectId
  req_userRole :: user_role
  req_eventId :: "objectId option"
  req_playerId :: "objectId option"
  req_amount :: jsvalue


text \<open>
  \<open>placeBid\<close> awaits the store between its reads and its writes, and another request may run
  in between. The model cuts it there: \<open>placeBid_prepare\<close> is everything up to and including
  the construction of the new \<open>Bid\<close> (it reads the event and the winning bid it will later
  demote), \<open>placeBid_commit\<close> is the rest, run on the store as it is by then. \<open>placeBid\<close> is
  the two in a row. The id of the new bid and the clock are inputs. Not modelled: the reset of
  the in-memory timer, the socket emissions (the socket server is taken as initialised), and
  \<open>populate\<close>; none of them writes to the store.
\<close>

record place_ctx =
  ctx_eventId :: objectId
  ctx_event :: auctionEvent
  ctx_observed :: "bid option"
  ctx_bid :: bid




section \<open>Category rotation (utils/scheduledStart)\<close>

definition category_sequence :: "role list" where
  "category_sequence = [Batsman, Bowler, AllRounder]"

fun indexOf :: "'a list \<Rightarrow> 'a \<Rightarrow> nat option" where
  "indexOf [] x = None"
| "indexOf (y # ys) x = (if y = x then Some 0 else map_option Suc (indexOf ys x))"

definition getNextCategory :: "role \<Rightarrow> role" where
  "getNextCategory category =
     (case indexOf category_sequence category of
        None \<Rightarrow> category_sequence ! 0
      | Some currentIndex \<Rightarrow>
          if currentIndex = length category_sequence - 1 then category_sequence ! 0
          else category_sequence ! (currentIndex + 1))"

definition soldPlayerIdsOf :: "objectId \<Rightarrow> bid list \<Rightarrow> objectId list" where
  \<comment> \<open>\<open>Bid.find({ auctionEventId, isWinningBid: true }).distinct('playerId')\<close>\<close>
  "soldPlayerIdsOf eventId coll =
     remdups (map b_playerId (filter (\<lambda>b. b_auctionEventId b = eventId \<and> isWinningBid b) coll))"

definition playersOfEvent :: "auctionEvent \<Rightarrow> db \<Rightarrow> (objectId \<times> player) list" where
  \<comment> \<open>\<open>Player.find({ _id: { $in: event.players } })\<close>\<close>
  "playersOfEvent event s =
     List.map_filter (\<lambda>pid. map_option (Pair pid) (players s pid)) (remdups (ev_players event))"

text \<open>
  The players of one category by ascending base price. Among equal base prices the store's
  order is not fixed by the source; the model keeps the order of \<open>event.players\<close>.
\<close>

definition playersInCategory :: "auctionEvent \<Rightarrow> role \<Rightarrow> db \<Rightarrow> (objectId \<times> player) list" where
  "playersInCategory event category s =
     sort_key (\<lambda>(pid, p). basePrice p)
       (filter (\<lambda>(pid, p). p_role p = category) (playersOfEvent event s))"

definition notSoldIn :: "objectId list \<Rightarrow> (objectId \<times> player) list \<Rightarrow> (objectId \<times> player) list" where
  "notSoldIn soldPlayerIds ps = filter (\<lambda>(pid, p). \<not> list_ex (\<lambda>soldId. soldId = pid) soldPlayerIds) ps"

text \<open>
  \<open>autoMoveToNextPlayer\<close> returns the store and the player whose auction it schedules to start
  two seconds later (\<open>None\<close> when it schedules nothing). It catches its own exceptions.
  \<open>startNextPlayer\<close> is the scheduled function's write to the store.
\<close>

definition autoMoveToNextPlayer :: "objectId \<Rightarrow> date \<Rightarrow> db \<Rightarrow> db \<times> objectId option" where
  "autoMoveToNextPlayer eventId now s =
     (case events s eventId of
        None \<Rightarrow> (s, None)
      | Some event \<Rightarrow>
          if ev_status event \<noteq> Live then (s, None)
          else
            let category = (case currentCategory event of None \<Rightarrow> Batsman | Some c \<Rightarrow> c);
                soldPlayerIds = soldPlayerIdsOf eventId (bids s);
                availablePlayers = notSoldIn soldPlayerIds (playersInCategory event category s)
            in if availablePlayers = [] then
                 (let nextCategory = getNextCategory category
                  in if nextCategory = Batsman \<and> category = AllRounder \<and>
                        notSoldIn soldPlayerIds (playersOfEvent event s) = []
                       then (s, None)
                     else
                       (case eventSave (event\<lparr>currentCategory := Some nextCategory\<rparr>) now of
                          Inl e \<Rightarrow> (s, None)
                        | Inr saved \<Rightarrow>
                            (s\<lparr>events := (events s)(eventId \<mapsto> saved)\<rparr>,
                             case notSoldIn soldPlayerIds
                                    (playersInCategory event nextCategory s) of
                               [] \<Rightarrow> None
                             | (nextPlayerId, _) # _ \<Rightarrow> Some nextPlayerId)))
               else (s, case availablePlayers of [] \<Rightarrow> None
                        | (nextPlayerId, _) # _ \<Rightarrow> Some nextPlayerId))"

definition startNextPlayer :: "objectId \<Rightarrow> objectId \<Rightarrow> date \<Rightarrow> db \<Rightarrow> db" where
  "startNextPlayer eventId nextPlayerId now s =
     (case events s eventId of
        None \<Rightarrow> s
      | Some currentEvent \<Rightarrow>
          if ev_status currentEvent \<noteq> Live then s
          else (case eventSave (currentEvent\<lparr>currentPlayerId := Some nextPlayerId,
                                             currentPlayerStartTime := Some now\<rparr>) now of
                  Inl e \<Rightarrow> s
                | Inr saved \<Rightarrow> s\<lparr>events := (events s)(eventId \<mapsto> saved)\<rparr>))"

section \<open>Timer expiry (controllers/event.controller, createTimerCallback)\<close>

text \<open>
  The callback catches every exception, logs it and returns; what it wrote before stays
  written. The result is the store and the player that \<open>autoMoveToNextPlayer\<close> scheduled, if
  it was reached. The socket server is taken as initialised, as \<open>server.js\<close> does at start-up
  (\<open>getIO\<close> throws otherwise); the emissions then write nothing to the store and are left
  out.
\<close>

definition clearCurrentPlayer :: "objectId \<Rightarrow> auctionEvent \<Rightarrow> date \<Rightarrow> db \<Rightarrow> api_error + db" where
  \<comment> \<open>\<open>currentPlayerId = null; currentPlayerStartTime = null; save()\<close>\<close>
  "clearCurrentPlayer eventId currentEvent now s =
     (case eventSave (currentEvent\<lparr>currentPlayerId := None, currentPlayerStartTime := None\<rparr>)
             now of
        Inl e \<Rightarrow> Inl e
      | Inr saved \<Rightarrow> Inr (s\<lparr>events := (events s)(eventId \<mapsto> saved)\<rparr>))"

definition allSold :: "objectId \<Rightarrow> auctionEvent \<Rightarrow> db \<Rightarrow> bool" where
  "allSold eventId updatedEvent s =
     (length (ev_players updatedEvent) > 0 \<and>
      list_all (\<lambda>pid. list_ex (\<lambda>soldId. soldId = pid) (soldPlayerIdsOf eventId (bids s)))
        (ev_players updatedEvent))"

definition completeOrAdvance :: "objectId \<Rightarrow> auctionEvent \<Rightarrow> date \<Rightarrow> db \<Rightarrow> db \<times> objectId option" where
  \<comment> \<open>the end of the winning-bid branch, from \<open>AuctionEvent.findById\<close> on\<close>
  "completeOrAdvance eventId updatedEvent now s =
     (if allSold eventId updatedEvent s then
        (case completeAuction updatedEvent now of
           Inl e \<Rightarrow> (s, None)
         | Inr completed \<Rightarrow> (s\<lparr>events := (events s)(eventId \<mapsto> completed)\<rparr>, None))
      else autoMoveToNextPlayer eventId now s)"

definition noBidBranch :: "objectId \<Rightarrow> auctionEvent \<Rightarrow> date \<Rightarrow> db \<Rightarrow> db \<times> objectId option" where
  \<comment> \<open>the no-bid branch, the same text in auto and in manual mode\<close>
  "noBidBranch eventId currentEvent now s =
     (case clearCurrentPlayer eventId currentEvent now s of
        Inl e \<Rightarrow> (s, None)
      | Inr s1 \<Rightarrow> autoMoveToNextPlayer eventId now s1)"

definition sellToWinner ::
  "objectId \<Rightarrow> objectId \<Rightarrow> auctionEvent \<Rightarrow> player \<Rightarrow> bid \<Rightarrow> team \<Rightarrow> date \<Rightarrow> db
     \<Rightarrow> db \<times> objectId option" where
  \<comment> \<open>the winning-bid branch of auto mode, once the team was found\<close>
  "sellToWinner eventId playerId currentEvent plyr winningBid tm now s =
     (case markAsSold plyr (b_teamId winningBid) (amount winningBid) of
        Inl e \<Rightarrow> (s, None)
      | Inr plyr' \<Rightarrow>
          (let s1 = s\<lparr>players := (players s)(playerId \<mapsto> plyr')\<rparr>;
               eventBudget = (case set_startingBudget currentEvent of None \<Rightarrow> 10000
                              | Some v \<Rightarrow> if v = 0 then 10000 else v)
           in case getOrCreate (b_teamId winningBid) eventId (Some eventBudget) (budgets s1) of
                Inl e \<Rightarrow> (s1, None)
              | Inr (teb, budgets') \<Rightarrow>
                  (case addPurchase teb (amount winningBid) of
                     Inl e \<Rightarrow> (s1\<lparr>budgets := budgets'\<rparr>, None)
                   | Inr teb' \<Rightarrow>
                       (let s2 = s1\<lparr>budgets := budgets'((b_teamId winningBid, eventId) \<mapsto> teb')\<rparr>
                        in case (if playerId \<in> set (t_players tm) then Inr s2
                                 else case teamSave (tm\<lparr>t_players := t_players tm @ [playerId]\<rparr>) of
                                        Inl e \<Rightarrow> Inl e
                                      | Inr tm' \<Rightarrow>
                                          Inr (s2\<lparr>teams := (teams s2)(b_teamId winningBid \<mapsto> tm')\<rparr>)) of
                             Inl e \<Rightarrow> (s2, None)
                           | Inr s3 \<Rightarrow>
                               (case updatePlayerSold currentEvent (amount winningBid) now of
                                  Inl e \<Rightarrow> (s3, None)
                                | Inr ev1 \<Rightarrow>
                                    (case clearCurrentPlayer eventId ev1 now
                                            (s3\<lparr>events := (events s3)(eventId \<mapsto> ev1)\<rparr>) of
                                       Inl e \<Rightarrow> (s3\<lparr>events := (events s3)(eventId \<mapsto> ev1)\<rparr>, None)
                                     | Inr s4 \<Rightarrow>
                                         completeOrAdvance eventId
                                           (ev1\<lparr>currentPlayerId := None,
                                                currentPlayerStartTime := None\<rparr>) now s4))))))"

definition createTimerCallback ::
  "objectId \<Rightarrow> objectId \<Rightarrow> objectId \<Rightarrow> date \<Rightarrow> db \<Rightarrow> db \<times> objectId option" where
  "createTimerCallback eventId eventIdParam playerId now s =
     (case events s eventIdParam of
        None \<Rightarrow> (s, None)
      | Some currentEvent \<Rightarrow>
          if currentPlayerId currentEvent \<noteq> Some playerId then (s, None)
          else
            (let winningBid = getWinningBid eventIdParam playerId (bids s)
             in case players s playerId of
                  None \<Rightarrow> (s, None)
                | Some plyr \<Rightarrow>
                    if p_status plyr \<noteq> Available then (s, None)
                    else if set_autoMode currentEvent \<noteq> Some False then
                      (case winningBid of
                         Some wb \<Rightarrow>
                           (case teams s (b_teamId wb) of
                              Some tm \<Rightarrow>
                                sellToWinner eventIdParam playerId currentEvent plyr wb tm now s
                            | None \<Rightarrow> (s, None))
                       | None \<Rightarrow> noBidBranch eventIdParam currentEvent now s)
                    else
                      (case winningBid of
                         None \<Rightarrow> noBidBranch eventIdParam currentEvent now s
                       | Some wb \<Rightarrow> (s, None))))"

section \<open>Predicates used by the properties\<close>

text \<open>The ledger invariant of one budget row.\<close>

definition budgetInvariant :: "teamEventBudget \<Rightarrow> bool" where
  "budgetInvariant r = (remainingBudget r = budget r - spent r \<and> spent r \<le> budget r)"

section \<open>A small auction for the concrete checks\<close>

text \<open>
  Event 1 is live with players 10 (a batsman, base price 20) and 11 (a bowler, base price 30);
  player 10 is on auction. Teams 1 and 2 are owned by users 101 and 102; team 1 has a budget
  row of 1000 in the event. The event, player 10 and the bids vary from check to check.
\<close>

definition ex_event :: auctionEvent where
  "ex_event = \<lparr>startDate = 0, endDate = None, ev_status = Live, ev_players = [10, 11],
     participatingTeams = [1, 2], currentPlayerId = Some 10, currentPlayerStartTime = Some 5,
     currentCategory = Some Batsman, set_bidIncrement = Some 50, set_bidTimer = Some 20,
     set_startingBudget = Some 1000,
     set_autoMode = Some True, stats_totalPlayers = 2, stats_playersSold = 0,
     stats_playersUnsold = 0, stats_totalAmountSpent = 0, startedAt = Some 1,
     completedAt = None\<rparr>"

definition ex_player :: "role \<Rightarrow> int \<Rightarrow> player" where
  "ex_player r b = \<lparr>p_name = ''P'', p_age = 25, p_role = r, basePrice = b,
     currentPrice = Some b, p_photo = None, stat_matches = 0, stat_runs = 0, stat_wickets = 0,
     stat_average = 0, p_status = Available, p_teamId = None, soldPrice = None,
     p_auctionEventId = None\<rparr>"

definition ex_team :: team where
  "ex_team = \<lparr>t_ownerId = Some 100, t_budget = 0, t_spent = 0, t_remainingBudget = 0,
     t_players = [], t_status = Active\<rparr>"

definition ex_budget :: teamEventBudget where
  "ex_budget = \<lparr>teb_teamId = 1, teb_auctionEventId = 1, budget = 1000, spent = 0,
     remainingBudget = 1000\<rparr>"

definition ex_bid :: "objectId \<Rightarrow> objectId \<Rightarrow> int \<Rightarrow> bid" where
  \<comment> \<open>a winning bid on player 10 in event 1\<close>
  "ex_bid i t a = \<lparr>bid_id = i, b_auctionEventId = 1, b_playerId = 10, b_teamId = t,
     b_bidderId = 100 + t, amount = a, b_status = Winning, isWinningBid = True,
     rejectionReason = None, bidTime = 6, outbidAt = None\<rparr>"

definition ex_db :: "auctionEvent \<Rightarrow> player \<Rightarrow> bid list \<Rightarrow> db" where
  "ex_db ev p bs = \<lparr>events = [1 \<mapsto> ev],
     players = [10 \<mapsto> p, 11 \<mapsto> ex_player Bowler 30],
     teams = [1 \<mapsto> ex_team, 2 \<mapsto> ex_team],
     users = [101 \<mapsto> \<lparr>u_role = TeamOwner, u_teamId = Some 1\<rparr>,
              102 \<mapsto> \<lparr>u_role = TeamOwner, u_teamId = Some 2\<rparr>],
     budgets = [(1, 1) \<mapsto> ex_budget],
     bids = bs\<rparr>"

section \<open>Predicates on the bid store and on responses\<close>




text \<open>Bid requests and prepared bids on player 10 of the small auction.\<close>

definition ex_request :: "objectId \<Rightarrow> int \<Rightarrow> bid_request" where
  "ex_request u a = \<lparr>req_userId = u, req_userRole = TeamOwner, req_eventId = Some 1,
     req_playerId = Some 10, req_amount = JNumber a\<rparr>"

definition ex_ctx :: "objectId \<Rightarrow> objectId \<Rightarrow> place_ctx" where
  "ex_ctx t i = \<lparr>ctx_eventId = 1, ctx_event = ex_event, ctx_observed = None,
     ctx_bid = (ex_bid i t 25)\<lparr>b_status := Accepted\<rparr>\<rparr>"


section \<open>Properties of the bidding rules\<close>

lemmas rules_defs = getNextBidAmount_def rule_applies_def INCREMENT_RULES_def BASE_PRICE_def
  MAX_BID_PER_PLAYER_def MAX_PLAYERS_PER_TEAM_def

lemma getNextBidAmount_closed:
  "getNextBidAmount cb =
     (let b = (case cb of None \<Rightarrow> 20 | Some c \<Rightarrow> if c = 0 then 20 else c)
      in if b \<ge> 2000 then None
         else if 20 \<le> b \<and> b < 50 then Some (b + 5)
         else if 50 \<le> b \<and> b < 100 then Some (b + 10)
         else Some (min (b + 15) 2000))"
  by (auto simp: rules_defs Let_def split: option.splits)

lemma next_increases:
  assumes "x < MAX_BID_PER_PLAYER"
  shows "\<exists>y. getNextBidAmount (Some x) = Some y \<and> x < y \<and> y \<le> MAX_BID_PER_PLAYER"
  using assms unfolding getNextBidAmount_closed MAX_BID_PER_PLAYER_def
  by (auto simp: Let_def)

lemma reaches_cap:
  "x \<le> MAX_BID_PER_PLAYER \<Longrightarrow>
     \<exists>n. (getNextBidAmount ^^ n) (Some x) = Some MAX_BID_PER_PLAYER"
proof (induction "nat (MAX_BID_PER_PLAYER - x)" arbitrary: x rule: less_induct)
  case less
  show ?case
  proof (cases "x = MAX_BID_PER_PLAYER")
    case True
    then have "(getNextBidAmount ^^ 0) (Some x) = Some MAX_BID_PER_PLAYER" by simp
    then show ?thesis by blast
  next
    case False
    with less.prems have lt: "x < MAX_BID_PER_PLAYER" by simp
    from next_increases[OF lt] obtain y where
      y: "getNextBidAmount (Some x) = Some y" "x < y" "y \<le> MAX_BID_PER_PLAYER" by blast
    have "nat (MAX_BID_PER_PLAYER - y) < nat (MAX_BID_PER_PLAYER - x)" using y lt by simp
    from less.hyps[OF this y(3)] obtain n where
      "(getNextBidAmount ^^ n) (Some y) = Some MAX_BID_PER_PLAYER" by blast
    then have "(getNextBidAmount ^^ Suc n) (Some x) = Some MAX_BID_PER_PLAYER"
      using y(1) by (simp add: funpow_swap1)
    then show ?thesis by blast
  qed
qed

lemma canPlaceBid_valid_iff:
  "valid (canPlaceBid a cur bal cnt opts) \<longleftrightarrow>
     (\<exists>n m. a = JNumber n \<and> 0 < n \<and> n \<le> MAX_BID_PER_PLAYER \<and>
        getNextBidAmount
          (Some (case opt_currentBidAmount opts of None \<Rightarrow> cur | Some c \<Rightarrow> c)) = Some m \<and>
        m \<le> n \<and> n \<le> bal \<and> cnt < MAX_PLAYERS_PER_TEAM)"
  by (cases a)
     (auto simp: canPlaceBid_def balanceAndTeamChecks_def Let_def split: option.splits)

lemma increment_table:
  "20 \<le> c \<Longrightarrow>
     \<exists>r. find (rule_applies c) INCREMENT_RULES = Some r \<and>
         increment r = (if c < 50 then 5 else if c < 100 then 10 else 15) \<and>
         (c < MAX_BID_PER_PLAYER \<longrightarrow>
            getNextBidAmount (Some c) = Some (min (c + increment r) MAX_BID_PER_PLAYER))"
  by (auto simp: rules_defs Let_def)

lemma scenario_base_20:
  "canPlaceBid (JNumber 20) 20 bal cnt
       \<lparr>opt_currentBidAmount = Some 20, opt_isOwnerBidding = Some True\<rparr>
     = \<lparr>valid = False, reason = BidMustBeAtLeast 25 20 5\<rparr>"
  "25 \<le> bal \<Longrightarrow> cnt < MAX_PLAYERS_PER_TEAM \<Longrightarrow>
     canPlaceBid (JNumber 25) 20 bal cnt
       \<lparr>opt_currentBidAmount = Some 20, opt_isOwnerBidding = Some True\<rparr>
     = \<lparr>valid = True, reason = BidIsValid\<rparr>"
  "getNextBidAmount (Some 25) = Some 30"
  by (auto simp: canPlaceBid_def balanceAndTeamChecks_def getNextBidAmount_closed
        MAX_BID_PER_PLAYER_def MAX_PLAYERS_PER_TEAM_def Let_def)

text \<open>
  C7. \<open>canPlaceBid\<close> accepts a submitted amount exactly when it is a finite number above zero,
  at most the cap of 2000, at least \<open>getNextBidAmount\<close> of the current amount, within the
  bidder's remaining budget, and the team holds fewer than ten players. From 20 on, the
  increment comes from the table (5 below 50, 10 below 100, 15 from 100), and the next amount
  is the current one plus that increment, never beyond the cap. With base price 20 a bid of
  20 is refused with minimum 25, a bid of 25 is accepted, and the next amount is then 30.
\<close>

theorem canPlaceBid_enforces_increment_table:
  "(valid (canPlaceBid a cur bal cnt opts) \<longleftrightarrow>
      (\<exists>n m. a = JNumber n \<and> 0 < n \<and> n \<le> MAX_BID_PER_PLAYER \<and>
         getNextBidAmount
           (Some (case opt_currentBidAmount opts of None \<Rightarrow> cur | Some c \<Rightarrow> c)) = Some m \<and>
         m \<le> n \<and> n \<le> bal \<and> cnt < MAX_PLAYERS_PER_TEAM)) \<and>
   (20 \<le> c \<longrightarrow>
      (\<exists>r. find (rule_applies c) INCREMENT_RULES = Some r \<and>
           increment r = (if c < 50 then 5 else if c < 100 then 10 else 15) \<and>
           (c < MAX_BID_PER_PLAYER \<longrightarrow>
              getNextBidAmount (Some c) = Some (min (c + increment r) MAX_BID_PER_PLAYER)))) \<and>
   canPlaceBid (JNumber 20) 20 bal cnt
       \<lparr>opt_currentBidAmount = Some 20, opt_isOwnerBidding = Some True\<rparr>
     = \<lparr>valid = False, reason = BidMustBeAtLeast 25 20 5\<rparr> \<and>
   (25 \<le> bal \<and> cnt < MAX_PLAYERS_PER_TEAM \<longrightarrow>
      canPlaceBid (JNumber 25) 20 bal cnt
          \<lparr>opt_currentBidAmount = Some 20, opt_isOwnerBidding = Some True\<rparr>
        = \<lparr>valid = True, reason = BidIsValid\<rparr>) \<and>
   getNextBidAmount (Some 25) = Some 30"
  using canPlaceBid_valid_iff[of a cur bal cnt opts] increment_table[of c]
    scenario_base_20(1)[of bal cnt] scenario_base_20(2)[of bal cnt] scenario_base_20(3)
  by blast

theorem canPlaceBid_enforces_increment_table_witness:
  "valid (canPlaceBid (JNumber 120) 100 1000 3
            \<lparr>opt_currentBidAmount = Some 100, opt_isOwnerBidding = Some True\<rparr>) \<and>
   getNextBidAmount (Some 100) = Some 115 \<and>
   canPlaceBid (JNumber 25) 20 1000 3
       \<lparr>opt_currentBidAmount = Some 20, opt_isOwnerBidding = Some True\<rparr>
     = \<lparr>valid = True, reason = BidIsValid\<rparr>"
  using canPlaceBid_enforces_increment_table
          [of "JNumber 120" 100 1000 3
              "\<lparr>opt_currentBidAmount = Some 100, opt_isOwnerBidding = Some True\<rparr>" 100]
  by (auto simp: MAX_BID_PER_PLAYER_def MAX_PLAYERS_PER_TEAM_def)

text \<open>
  C8. Below the cap \<open>getNextBidAmount\<close> returns a number strictly above its argument and not
  above the cap; applying it again and again reaches the cap after finitely many steps, and at
  the cap it returns \<open>null\<close>.
\<close>

theorem getNextBidAmount_strictly_increases_to_cap:
  "x < MAX_BID_PER_PLAYER \<Longrightarrow>
     (\<exists>y. getNextBidAmount (Some x) = Some y \<and> x < y \<and> y \<le> MAX_BID_PER_PLAYER) \<and>
     (\<exists>n. (getNextBidAmount ^^ n) (Some x) = Some MAX_BID_PER_PLAYER) \<and>
     getNextBidAmount (Some MAX_BID_PER_PLAYER) = None"
  using next_increases[of x] reaches_cap[of x]
  by (simp add: getNextBidAmount_closed MAX_BID_PER_PLAYER_def)

theorem getNextBidAmount_strictly_increases_to_cap_witness:
  "(\<exists>y. getNextBidAmount (Some 1990) = Some y \<and> 1990 < y \<and> y \<le> MAX_BID_PER_PLAYER) \<and>
   (\<exists>n. (getNextBidAmount ^^ n) (Some 1990) = Some MAX_BID_PER_PLAYER) \<and>
   getNextBidAmount (Some MAX_BID_PER_PLAYER) = None"
  using getNextBidAmount_strictly_increases_to_cap[of 1990]
  by (simp add: MAX_BID_PER_PLAYER_def)

section \<open>Properties of the budget ledger\<close>

lemma budgetSave_inv:
  "budgetSave this = Inr r \<Longrightarrow> budgetInvariant r"
  by (auto simp: budgetSave_def budgetFailing_def budgetInvariant_def split: if_splits)

lemma addPurchase_inv:
  "addPurchase this price = Inr r \<Longrightarrow>
     budgetInvariant r \<and> spent r = spent this + price \<and> budget r = budget this \<and>
     teb_teamId r = teb_teamId this \<and> teb_auctionEventId r = teb_auctionEventId this"
  by (auto simp: addPurchase_def budgetSave_def budgetFailing_def budgetInvariant_def
        split: if_splits)

lemma addPurchase_insufficient:
  "remainingBudget this < price \<Longrightarrow>
     addPurchase this price =
       Inl (PlainError ''Insufficient budget to purchase player in this event'')"
  by (simp add: addPurchase_def canAfford_def)

lemma getOrCreate_inv:
  assumes "\<forall>r\<in>ran coll. budgetInvariant r" "getOrCreate t e d coll = Inr (r, coll')"
  shows "budgetInvariant r \<and> (\<forall>r\<in>ran coll'. budgetInvariant r)"
proof (cases "coll (t, e)")
  case (Some found)
  with assms(2) have "r = found" "coll' = coll" by (auto simp: getOrCreate_def)
  moreover from Some have "found \<in> ran coll" by (auto simp: ran_def)
  ultimately show ?thesis using assms(1) by blast
next
  case None
  with assms(2) obtain x where sv: "budgetSave x = Inr r"
    and c': "coll' = coll((t, e) \<mapsto> r)"
    by (auto simp: getOrCreate_def Let_def split: sum.splits)
  have inv: "budgetInvariant r" using budgetSave_inv[OF sv] .
  have "ran coll' = insert r (ran coll)" using None c' by simp
  with inv assms(1) show ?thesis by simp
qed

text \<open>
  C6. Every successful save of a budget row leaves \<open>remainingBudget = budget - spent\<close> and
  \<open>spent \<le> budget\<close>: the validators of \<open>spent\<close> and the \<open>pre('save')\<close> hook see to it. So
  \<open>getOrCreate\<close> and \<open>addPurchase\<close> return a row with the invariant and keep it on the whole
  collection. \<open>addPurchase\<close> adds the price to \<open>spent\<close>; when the remaining budget is below
  the price it throws the insufficient-budget error before it assigns or saves anything.
\<close>

theorem budget_ledger_invariant:
  "(budgetSave this = Inr r \<longrightarrow> budgetInvariant r) \<and>
   ((\<forall>x\<in>ran coll. budgetInvariant x) \<and> getOrCreate t e d coll = Inr (g, coll')
      \<longrightarrow> budgetInvariant g \<and> (\<forall>x\<in>ran coll'. budgetInvariant x)) \<and>
   (addPurchase row price = Inr row'
      \<longrightarrow> budgetInvariant row' \<and> spent row' = spent row + price \<and> budget row' = budget row) \<and>
   (remainingBudget row < price
      \<longrightarrow> addPurchase row price =
            Inl (PlainError ''Insufficient budget to purchase player in this event''))"
proof (intro conjI impI)
  show "budgetInvariant r" if "budgetSave this = Inr r"
    using that by (rule budgetSave_inv)
  show "budgetInvariant g" "\<forall>x\<in>ran coll'. budgetInvariant x"
    if "(\<forall>x\<in>ran coll. budgetInvariant x) \<and> getOrCreate t e d coll = Inr (g, coll')"
    using that getOrCreate_inv[of coll t e d g coll'] by simp_all
  show "budgetInvariant row'" "spent row' = spent row + price" "budget row' = budget row"
    if "addPurchase row price = Inr row'"
    using that addPurchase_inv[of row price row'] by simp_all
  show "addPurchase row price =
          Inl (PlainError ''Insufficient budget to purchase player in this event'')"
    if "remainingBudget row < price"
    using that by (rule addPurchase_insufficient)
qed

theorem budget_ledger_invariant_witness:
  "addPurchase ex_budget 500 = Inr (ex_budget\<lparr>spent := 500, remainingBudget := 500\<rparr>) \<and>
   budgetInvariant (ex_budget\<lparr>spent := 500, remainingBudget := 500\<rparr>) \<and>
   remainingBudget ex_budget < 1500 \<and>
   addPurchase ex_budget 1500 =
     Inl (PlainError ''Insufficient budget to purchase player in this event'')"
proof -
  have ap: "addPurchase ex_budget 500 = Inr (ex_budget\<lparr>spent := 500, remainingBudget := 500\<rparr>)"
    by (simp add: addPurchase_def budgetSave_def budgetFailing_def canAfford_def ex_budget_def)
  have lt: "remainingBudget ex_budget < 1500"
    by (simp add: ex_budget_def)
  note purchase = budget_ledger_invariant
     [THEN conjunct2, THEN conjunct2, THEN conjunct1, rule_format, OF ap]
  note refuse = budget_ledger_invariant
     [THEN conjunct2, THEN conjunct2, THEN conjunct2, rule_format, OF lt]
  from ap lt purchase refuse show ?thesis by simp
qed

section \<open>Properties of the player\<close>

lemma soldPlayers_cong:
  assumes "\<And>pid. map_option p_status (players s' pid) = map_option p_status (players s pid)"
  shows "soldPlayers ev s' = soldPlayers ev s"
proof -
  have "(case players s' pid of None \<Rightarrow> False | Some p \<Rightarrow> p_status p = Sold)
      = (case players s pid of None \<Rightarrow> False | Some p \<Rightarrow> p_status p = Sold)" for pid
    using assms[of pid] by (cases "players s pid"; cases "players s' pid") auto
  then show ?thesis by (simp add: soldPlayers_def)
qed

lemma autoMove_frame:
  "players (fst (autoMoveToNextPlayer e now s)) = players s \<and>
   bids (fst (autoMoveToNextPlayer e now s)) = bids s \<and>
   budgets (fst (autoMoveToNextPlayer e now s)) = budgets s \<and>
   teams (fst (autoMoveToNextPlayer e now s)) = teams s"
  by (auto simp: autoMoveToNextPlayer_def Let_def split: option.splits list.splits sum.splits)

lemma noBidBranch_frame:
  "players (fst (noBidBranch e ev now s)) = players s \<and>
   bids (fst (noBidBranch e ev now s)) = bids s \<and>
   budgets (fst (noBidBranch e ev now s)) = budgets s \<and>
   teams (fst (noBidBranch e ev now s)) = teams s"
  by (auto simp: noBidBranch_def clearCurrentPlayer_def autoMove_frame split: sum.splits)

lemma completeOrAdvance_frame:
  "players (fst (completeOrAdvance e ev2 now s)) = players s \<and>
   bids (fst (completeOrAdvance e ev2 now s)) = bids s \<and>
   budgets (fst (completeOrAdvance e ev2 now s)) = budgets s \<and>
   teams (fst (completeOrAdvance e ev2 now s)) = teams s"
  by (auto simp: completeOrAdvance_def autoMove_frame split: sum.splits)

lemma markAsSold_frame:
  assumes "markAsSold this teamId price = Inr p'"
  shows "p' = this\<lparr>soldPrice := Some price, currentPrice := currentPrice p'\<rparr> \<and>
         p_status p' = p_status this \<and> p_teamId p' = p_teamId this"
  using assms
  by (auto simp: markAsSold_def playerSave_def playerPreSave_def split: if_splits)

lemma soldPlayers_not:
  "players s pid = Some p \<Longrightarrow> p_status p \<noteq> Sold \<Longrightarrow> pid \<notin> set (soldPlayers ev s)"
  by (auto simp: soldPlayers_def)

lemma sellToWinner_statuses:
  "players s p = Some plyr \<Longrightarrow>
   map_option p_status (players (fst (sellToWinner e p cev plyr wb tm now s)) pid)
     = map_option p_status (players s pid)"
  unfolding sellToWinner_def
  by (auto simp: Let_def completeOrAdvance_frame clearCurrentPlayer_def dest: markAsSold_frame
        split: sum.splits prod.splits if_splits)

lemma callback_statuses:
  "map_option p_status (players (fst (createTimerCallback e0 e p now s)) pid)
     = map_option p_status (players s pid)"
  unfolding createTimerCallback_def
  by (auto simp: Let_def noBidBranch_frame sellToWinner_statuses split: option.splits)

text \<open>
  C10. A successful \<open>markAsSold\<close> returns the player with \<open>soldPrice\<close> set to the price and
  every other field but \<open>currentPrice\<close> as it was: the global status and the team are
  unchanged. A player that was available stays available and is not selected by the
  sold-players query of the end-of-auction summary; the timer callback as a whole leaves the
  result of that query as it was.
\<close>

theorem markAsSold_changes_only_prices:
  "(markAsSold this teamId price = Inr p' \<longrightarrow>
      p' = this\<lparr>soldPrice := Some price, currentPrice := currentPrice p'\<rparr> \<and>
      p_status p' = p_status this \<and> p_teamId p' = p_teamId this \<and>
      (p_status this = Available \<and> players s pid = Some p'
         \<longrightarrow> p_status p' = Available \<and> pid \<notin> set (soldPlayers ev s))) \<and>
   soldPlayers ev (fst (createTimerCallback e0 e p now s0)) = soldPlayers ev s0"
proof -
  have "soldPlayers ev (fst (createTimerCallback e0 e p now s0)) = soldPlayers ev s0"
    by (rule soldPlayers_cong) (rule callback_statuses)
  moreover have "p_status p' = Available \<and> players s pid = Some p'
      \<longrightarrow> pid \<notin> set (soldPlayers ev s)"
    using soldPlayers_not[of s pid p' ev] by simp
  ultimately show ?thesis using markAsSold_frame[of this teamId price p'] by auto
qed

theorem markAsSold_changes_only_prices_witness:
  "markAsSold (ex_player Batsman 20) 1 500 = Inr ((ex_player Batsman 20)\<lparr>soldPrice := Some 500\<rparr>) \<and>
   p_status ((ex_player Batsman 20)\<lparr>soldPrice := Some 500\<rparr>) = Available \<and>
   10 \<notin> set (soldPlayers ex_event
               (ex_db ex_event ((ex_player Batsman 20)\<lparr>soldPrice := Some 500\<rparr>) []))"
  using markAsSold_changes_only_prices
          [where this = "ex_player Batsman 20" and teamId = 1 and price = 500
             and p' = "(ex_player Batsman 20)\<lparr>soldPrice := Some 500\<rparr>" and pid = 10
             and ev = ex_event
             and s = "ex_db ex_event ((ex_player Batsman 20)\<lparr>soldPrice := Some 500\<rparr>) []"]
  by (simp add: markAsSold_def playerSave_def playerFailing_def playerPreSave_def ex_player_def
        ex_db_def)

section \<open>Evaluation of the concrete checks\<close>

lemmas ex_defs = ex_event_def ex_player_def ex_team_def ex_bid_def ex_db_def ex_budget_def
  ex_request_def ex_ctx_def

lemmas cb_defs = createTimerCallback_def sellToWinner_def completeOrAdvance_def noBidBranch_def
  autoMoveToNextPlayer_def clearCurrentPlayer_def allSold_def completeAuction_def
  updatePlayerSold_def eventSave_def eventFailing_def teamSave_def teamFailing_def
  getOrCreate_def addPurchase_def budgetSave_def budgetFailing_def canAfford_def
  markAsSold_def markAsUnsold_def playerSave_def playerFailing_def playerPreSave_def
  getWinningBid_def winningFor_def soldPlayerIdsOf_def
  playersInCategory_def playersOfEvent_def notSoldIn_def getNextCategory_def
  category_sequence_def List.map_filter_def



section \<open>Properties of the timer callback\<close>

lemma pick_latest_Some:
  "fold (\<lambda>b acc. case acc of None \<Rightarrow> Some b
                    | Some a \<Rightarrow> if bidTime b > bidTime a then Some b else Some a) xs (Some a)
     \<noteq> None"
  by (induction xs arbitrary: a) auto

lemma getWinningBid_None_iff:
  "getWinningBid e p coll = None \<longleftrightarrow> filter (winningFor e p) coll = []"
  unfolding getWinningBid_def
  by (cases "filter (winningFor e p) coll") (auto simp: pick_latest_Some)

lemma not_sold_if_no_winner:
  "getWinningBid e p coll = None \<Longrightarrow> \<not> list_ex (\<lambda>soldId. soldId = p) (soldPlayerIdsOf e coll)"
  by (auto simp: getWinningBid_None_iff soldPlayerIdsOf_def filter_empty_conv winningFor_def
        list_ex_iff)

lemma mem_playersOfEvent:
  "p \<in> set (ev_players ev) \<Longrightarrow> players s p = Some plyr \<Longrightarrow>
     (p, plyr) \<in> set (playersOfEvent ev s)"
  by (force simp: playersOfEvent_def List.map_filter_def)

lemma eligible_in_category:
  assumes "p \<in> set (ev_players ev)" "players s p = Some plyr" "getWinningBid e p (bids s) = None"
  shows "(p, plyr) \<in> set (notSoldIn (soldPlayerIdsOf e (bids s))
                           (playersInCategory ev (p_role plyr) s))"
  using mem_playersOfEvent[OF assms(1,2)] not_sold_if_no_winner[OF assms(3)]
  by (auto simp: notSoldIn_def playersInCategory_def)

lemma playersInCategory_cong:
  "ev_players ev' = ev_players ev \<Longrightarrow> players s' = players s \<Longrightarrow>
     playersInCategory ev' c s' = playersInCategory ev c s"
  by (simp add: playersInCategory_def playersOfEvent_def)

lemma eventSave_Inr: "eventSave this now = Inr saved \<Longrightarrow> saved = this"
  by (simp add: eventSave_def split: if_splits)

lemma eventFailing_cleared:
  "eventFailing (ev\<lparr>currentPlayerId := a, currentPlayerStartTime := b\<rparr>) now = eventFailing ev now"
  by (simp add: eventFailing_def cong: option.case_cong)


lemma autoMove_event:
  assumes "events s e = Some ev"
  shows "\<exists>c. events (fst (autoMoveToNextPlayer e now s)) e = Some (ev\<lparr>currentCategory := c\<rparr>)"
proof -
  have same: "ev = ev\<lparr>currentCategory := currentCategory ev\<rparr>" by simp
  have "events (fst (autoMoveToNextPlayer e now s)) e = Some ev \<or>
        (\<exists>c. events (fst (autoMoveToNextPlayer e now s)) e = Some (ev\<lparr>currentCategory := c\<rparr>))"
    using assms
    by (auto simp: autoMoveToNextPlayer_def Let_def dest!: eventSave_Inr
          split: option.splits list.splits sum.splits)
  then show ?thesis using same by metis
qed









lemma clearCurrentPlayer_ok:
  "eventFailing ev now = [] \<Longrightarrow>
     clearCurrentPlayer e ev now s =
       Inr (s\<lparr>events := (events s)(e \<mapsto>
               ev\<lparr>currentPlayerId := None, currentPlayerStartTime := None\<rparr>)\<rparr>)"
  by (simp add: clearCurrentPlayer_def eventSave_def eventFailing_cleared)



lemma no_bid_branch:
  "events s e = Some ev \<Longrightarrow> currentPlayerId ev = Some p \<Longrightarrow> players s p = Some plyr \<Longrightarrow>
   p_status plyr = Available \<Longrightarrow> getWinningBid e p (bids s) = None \<Longrightarrow>
     createTimerCallback e0 e p now s = noBidBranch e ev now s"
  by (auto simp: createTimerCallback_def Let_def split: option.splits)


text \<open>
  C9. When the event of the callback no longer exists, or its current player is not the
  player the timer was armed for, the callback returns the store exactly as it found it and
  schedules nothing: no sale, no debit, no statistics, no advance.
\<close>

theorem stale_timer_changes_nothing:
  "events s e = None \<or> (\<exists>ev. events s e = Some ev \<and> currentPlayerId ev \<noteq> Some p) \<Longrightarrow>
     createTimerCallback e0 e p now s = (s, None)"
  by (auto simp: createTimerCallback_def)

theorem stale_timer_changes_nothing_witness:
  "currentPlayerId (ex_event\<lparr>currentPlayerId := Some 11\<rparr>) \<noteq> Some 10 \<and>
   createTimerCallback 1 1 10 30
       (ex_db (ex_event\<lparr>currentPlayerId := Some 11\<rparr>) (ex_player Batsman 20) [ex_bid 1000 1 500])
     = (ex_db (ex_event\<lparr>currentPlayerId := Some 11\<rparr>) (ex_player Batsman 20) [ex_bid 1000 1 500],
        None)"
proof -
  let ?s = "ex_db (ex_event\<lparr>currentPlayerId := Some 11\<rparr>) (ex_player Batsman 20)
              [ex_bid 1000 1 500]"
  have ne: "currentPlayerId (ex_event\<lparr>currentPlayerId := Some 11\<rparr>) \<noteq> Some 10" by simp
  have h: "events ?s 1 = None \<or>
           (\<exists>ev. events ?s 1 = Some ev \<and> currentPlayerId ev \<noteq> Some 10)"
    by (simp add: ex_db_def)
  from stale_timer_changes_nothing[OF h] ne show ?thesis by simp
qed

text \<open>
  C5 as the code has it. The callback acts only on a current player that exists and whose
  global status is available. For such a player without a winning bid, in auto mode, and an
  event document that passes its validation (a live event with settings and statistics in
  their bounds does), it clears \<open>currentPlayerId\<close> and \<open>currentPlayerStartTime\<close> and calls
  \<open>autoMoveToNextPlayer\<close>; no player document changes (the status stays available, nothing
  is marked unsold, \<open>stats.playersUnsold\<close> is as before), and the player, if it belongs to
  the event, is still among the players of its category without a winning bid, which is the
  list the rotation chooses from.
\<close>

theorem no_bid_expiry_requeues_available_player:
  assumes ev: "events s e = Some ev" and cur: "currentPlayerId ev = Some p"
    and pl: "players s p = Some plyr" and av: "p_status plyr = Available"
    and nobid: "getWinningBid e p (bids s) = None" and auto: "set_autoMode ev \<noteq> Some False"
    and evv: "eventFailing ev now = []"
  shows "createTimerCallback e0 e p now s =
           autoMoveToNextPlayer e now
             (s\<lparr>events := (events s)(e \<mapsto>
                  ev\<lparr>currentPlayerId := None, currentPlayerStartTime := None\<rparr>)\<rparr>) \<and>
         players (fst (createTimerCallback e0 e p now s)) = players s \<and>
         (\<exists>ev'. events (fst (createTimerCallback e0 e p now s)) e = Some ev' \<and>
            currentPlayerId ev' = None \<and> currentPlayerStartTime ev' = None \<and>
            stats_playersUnsold ev' = stats_playersUnsold ev \<and>
            (p \<in> set (ev_players ev) \<longrightarrow>
               (p, plyr) \<in> set (notSoldIn
                   (soldPlayerIdsOf e (bids (fst (createTimerCallback e0 e p now s))))
                   (playersInCategory ev' (p_role plyr)
                      (fst (createTimerCallback e0 e p now s))))))"
proof -
  let ?ev1 = "ev\<lparr>currentPlayerId := None, currentPlayerStartTime := None\<rparr>"
  let ?s1 = "s\<lparr>events := (events s)(e \<mapsto> ?ev1)\<rparr>"
  have cb: "createTimerCallback e0 e p now s = autoMoveToNextPlayer e now ?s1"
    using no_bid_branch[OF ev cur pl av nobid, of e0 now] clearCurrentPlayer_ok[OF evv, of e s]
    by (simp add: noBidBranch_def)
  have s1: "events ?s1 e = Some ?ev1" "players ?s1 = players s" "bids ?s1 = bids s"
    by simp_all
  from autoMove_event[OF s1(1), of now] obtain c where
    ev': "events (fst (autoMoveToNextPlayer e now ?s1)) e = Some (?ev1\<lparr>currentCategory := c\<rparr>)"
    by blast
  have fr: "players (fst (autoMoveToNextPlayer e now ?s1)) = players s"
           "bids (fst (autoMoveToNextPlayer e now ?s1)) = bids s"
    using autoMove_frame[of e now ?s1] s1 by simp_all
  have elig: "p \<in> set (ev_players ev) \<longrightarrow>
      (p, plyr) \<in> set (notSoldIn (soldPlayerIdsOf e (bids s))
                          (playersInCategory (?ev1\<lparr>currentCategory := c\<rparr>) (p_role plyr)
                             (fst (autoMoveToNextPlayer e now ?s1))))"
  proof
    assume mem: "p \<in> set (ev_players ev)"
    have "playersInCategory (?ev1\<lparr>currentCategory := c\<rparr>) (p_role plyr)
            (fst (autoMoveToNextPlayer e now ?s1)) = playersInCategory ev (p_role plyr) s"
      by (rule playersInCategory_cong) (simp_all add: fr)
    then show "(p, plyr) \<in> set (notSoldIn (soldPlayerIdsOf e (bids s))
                          (playersInCategory (?ev1\<lparr>currentCategory := c\<rparr>) (p_role plyr)
                             (fst (autoMoveToNextPlayer e now ?s1))))"
      using eligible_in_category[OF mem pl nobid] by simp
  qed
  show ?thesis
    unfolding cb using ev' fr elig by simp
qed

theorem no_bid_expiry_requeues_available_player_witness:
  "createTimerCallback 1 1 10 30 (ex_db ex_event (ex_player Batsman 20) [])
     = autoMoveToNextPlayer 1 30
         (ex_db (ex_event\<lparr>currentPlayerId := None, currentPlayerStartTime := None\<rparr>)
            (ex_player Batsman 20) []) \<and>
   players (fst (createTimerCallback 1 1 10 30 (ex_db ex_event (ex_player Batsman 20) [])))
     = players (ex_db ex_event (ex_player Batsman 20) [])"
proof -
  let ?s = "ex_db ex_event (ex_player Batsman 20) []"
  have h1: "events ?s 1 = Some ex_event" by (simp add: ex_db_def)
  have h2: "currentPlayerId ex_event = Some 10" by (simp add: ex_event_def)
  have h3: "players ?s 10 = Some (ex_player Batsman 20)" by (simp add: ex_db_def)
  have h4: "p_status (ex_player Batsman 20) = Available" by (simp add: ex_player_def)
  have h5: "getWinningBid 1 10 (bids ?s) = None" by (simp add: ex_db_def getWinningBid_def)
  have h6: "set_autoMode ex_event \<noteq> Some False" by (simp add: ex_event_def)
  have h7: "eventFailing ex_event 30 = []" by (simp add: eventFailing_def ex_event_def)
  have upd: "?s\<lparr>events := (events ?s)(1 \<mapsto>
                 ex_event\<lparr>currentPlayerId := None, currentPlayerStartTime := None\<rparr>)\<rparr>
             = ex_db (ex_event\<lparr>currentPlayerId := None, currentPlayerStartTime := None\<rparr>)
                 (ex_player Batsman 20) []"
    by (simp add: ex_db_def)
  note th = no_bid_expiry_requeues_available_player[OF h1 h2 h3 h4 h5 h6 h7, of 1]
  from th[THEN conjunct1] th[THEN conjunct2, THEN conjunct1] show ?thesis
    unfolding upd by simp
qed

text \<open>
  C5 as stated fails for a current player whose global status is not available. Such a
  player becomes current through the rotation, which looks at winning bids only: here player
  10 was marked unsold, \<open>autoMoveToNextPlayer\<close> schedules it, and when its timer expires
  without a bid the callback returns at the status test, leaving \<open>currentPlayerId\<close> set.
\<close>

theorem no_bid_expiry_counterexample:
  "markAsUnsold (ex_player Batsman 20) = Inr ((ex_player Batsman 20)\<lparr>p_status := Unsold\<rparr>) \<and>
   snd (autoMoveToNextPlayer 1 9
          (ex_db (ex_event\<lparr>currentPlayerId := None, currentPlayerStartTime := None\<rparr>)
             ((ex_player Batsman 20)\<lparr>p_status := Unsold\<rparr>) [])) = Some 10 \<and>
   set_autoMode ex_event = Some True \<and> currentPlayerId ex_event = Some 10 \<and>
   getWinningBid 1 10 [] = None \<and>
   createTimerCallback 1 1 10 30
       (ex_db ex_event ((ex_player Batsman 20)\<lparr>p_status := Unsold\<rparr>) [])
     = (ex_db ex_event ((ex_player Batsman 20)\<lparr>p_status := Unsold\<rparr>) [], None) \<and>
   events (ex_db ex_event ((ex_player Batsman 20)\<lparr>p_status := Unsold\<rparr>) []) 1 = Some ex_event"
  by (simp add: cb_defs ex_defs)







section \<open>Properties of the bid store\<close>



























end
